theory Spec2Isabelle
  imports Complex_Main
begin

section \<open>JavaScript values\<close>

text \<open>
  A JavaScript number is a finite value, \<open>NaN\<close> or one of the two infinities. The code
  only ever tests numbers for truthiness and compares them with \<open>===\<close>, so a finite
  number is represented by the real it denotes (\<open>+0\<close> and \<open>-0\<close> are both \<open>Num 0\<close>:
  they are falsy and \<open>===\<close> to each other).
\<close>

datatype number = Num real | NaN | PosInfinity | NegInfinity

datatype array_kind =
  Int8 | Uint8 | Uint8Clamped | Int16 | Uint16 | Int32 | Uint32 | Float32 | Float64

text \<open>
  Every realm (a window, a frame, a worker) has its own built-in constructors and so
  its own prototype objects. \<open>ThisRealm\<close> is the realm in which the code of the resource
  was loaded: the names \<open>Float32Array\<close>, \<open>Uint8Array\<close> and \<open>Uint32Array\<close> in the source
  denote its constructors.
\<close>

datatype realm = ThisRealm | OtherRealm nat

text \<open>
  The objects that occur on prototype chains: \<open>Float32Array.prototype\<close> and its eight
  siblings, \<open>%TypedArray%.prototype\<close>, \<open>Array.prototype\<close> and \<open>Object.prototype\<close> of a realm,
  and any other object, told apart by a number.
\<close>

datatype prototype =
    TypedArrayPrototype realm array_kind
  | AbstractTypedArrayPrototype realm
  | ArrayPrototype realm
  | ObjectPrototype realm
  | UserPrototype nat

text \<open>
  An object is given by its prototype chain, from its own prototype up to the end of
  the chain, by what it holds (the elements of an array, the element kind and the
  elements of a typed array), and by the named properties a read finds on it, its own
  and those it inherits.
\<close>

datatype jsval =
    Undefined
  | Null
  | Boolean bool
  | Number number
  | String string
  | Array "prototype list" "jsval list" "(string \<times> jsval) list"
  | TypedArray "prototype list" array_kind "number list" "(string \<times> jsval) list"
  | Object "prototype list" "(string \<times> jsval) list"

text \<open>The prototype chains the constructors and literals of a realm give their objects.\<close>

definition typed_array_chain :: "realm \<Rightarrow> array_kind \<Rightarrow> prototype list" where
  "typed_array_chain r k =
     [TypedArrayPrototype r k, AbstractTypedArrayPrototype r, ObjectPrototype r]"

definition array_chain :: "realm \<Rightarrow> prototype list" where
  "array_chain r = [ArrayPrototype r, ObjectPrototype r]"

definition object_chain :: "realm \<Rightarrow> prototype list" where
  "object_chain r = [ObjectPrototype r]"

text \<open>\<open>a === b\<close> on two numbers: \<open>NaN\<close> is equal to nothing, not even to itself.\<close>

definition strict_eq :: "number \<Rightarrow> number \<Rightarrow> bool" where
  "strict_eq a b = (if a = NaN \<or> b = NaN then False else a = b)"

text \<open>\<open>ToBoolean\<close>: what \<open>!v\<close> negates.\<close>

fun number_truthy :: "number \<Rightarrow> bool" where
  "number_truthy (Num x) = (x \<noteq> 0)"
| "number_truthy NaN = False"
| "number_truthy PosInfinity = True"
| "number_truthy NegInfinity = True"

fun truthy :: "jsval \<Rightarrow> bool" where
  "truthy Undefined = False"
| "truthy Null = False"
| "truthy (Boolean b) = b"
| "truthy (Number n) = number_truthy n"
| "truthy (String s) = (s \<noteq> [])"
| "truthy (Array chain xs fs) = True"
| "truthy (TypedArray chain k xs fs) = True"
| "truthy (Object chain fs) = True"

text \<open>
  Reading a property, as the destructuring \<open>const { width, height } = v\<close> does for each
  name: a property the value does not have reads as \<open>undefined\<close>. A primitive has no
  property called \<open>width\<close> or \<open>height\<close>.
\<close>

fun get_prop :: "jsval \<Rightarrow> string \<Rightarrow> jsval" where
  "get_prop (Object chain fs) name =
     (case map_of fs name of Some v \<Rightarrow> v | None \<Rightarrow> Undefined)"
| "get_prop (Array chain xs fs) name =
     (case map_of fs name of Some v \<Rightarrow> v | None \<Rightarrow> Undefined)"
| "get_prop (TypedArray chain k xs fs) name =
     (case map_of fs name of Some v \<Rightarrow> v | None \<Rightarrow> Undefined)"
| "get_prop v name = Undefined"

section \<open>The resource\<close>

datatype error = Error string

record Resource =
  width :: jsval
  height :: jsval

record BufferResource = Resource +
  data :: jsval
  compressedTextureFormats :: "number list option"

text \<open>
  Modelled from the spec: the base class \<open>Resource\<close> (\<open>./Resource\<close>) is not among the
  sources. Its constructor, called as \<open>super(width, height)\<close>, yields a resource that
  reports exactly the given dimensions.
\<close>

definition Resource_new :: "jsval \<Rightarrow> jsval \<Rightarrow> Resource" where
  "Resource_new w h = \<lparr>width = w, height = h\<rparr>"

text \<open>
  The constructor. \<open>this.compressedTextureFormats\<close> is not assigned, so it starts out
  absent (\<open>None\<close>).
\<close>

definition BufferResource_new :: "jsval \<Rightarrow> jsval \<Rightarrow> error + BufferResource" where
  "BufferResource_new source options =
     (let opts = (if truthy options then options else Object (object_chain ThisRealm) []);
          w = get_prop opts ''width'';
          h = get_prop opts ''height''
      in if \<not> truthy w \<or> \<not> truthy h
         then Inl (Error ''BufferResource width or height invalid'')
         else Inr (Resource.extend (Resource_new w h)
                     (BufferResource.fields source None)))"

definition dispose :: "BufferResource \<Rightarrow> BufferResource" where
  "dispose this = this\<lparr>data := Null\<rparr>"

text \<open>
  \<open>v instanceof C\<close>, given the object \<open>C.prototype\<close>: false when \<open>v\<close> is not an object;
  otherwise the prototype chain of \<open>v\<close> is walked from its start, and the answer is true
  as soon as \<open>C.prototype\<close> itself is met, false when the chain ends.
\<close>

fun has_prototype :: "prototype list \<Rightarrow> prototype \<Rightarrow> bool" where
  "has_prototype [] p = False"
| "has_prototype (q # chain) p = (if q = p then True else has_prototype chain p)"

fun instanceof :: "jsval \<Rightarrow> prototype \<Rightarrow> bool" where
  "instanceof (Array chain xs fs) p = has_prototype chain p"
| "instanceof (TypedArray chain k xs fs) p = has_prototype chain p"
| "instanceof (Object chain fs) p = has_prototype chain p"
| "instanceof v p = False"

text \<open>The static \<open>test\<close>: three \<open>instanceof\<close> checks against this realm's constructors.\<close>

definition test :: "jsval \<Rightarrow> bool" where
  "test source = (instanceof source (TypedArrayPrototype ThisRealm Float32)
                  \<or> instanceof source (TypedArrayPrototype ThisRealm Uint8)
                  \<or> instanceof source (TypedArrayPrototype ThisRealm Uint32))"

section \<open>The rendering context\<close>

text \<open>
  The WebGL context is a collaborator of the resource, owned by the renderer. It is
  modelled as a recording context: its constants, what its driver supports (the
  extension names for which \<open>getExtension\<close> returns an object rather than null, and
  the list \<open>getParameter\<close> reports for \<open>COMPRESSED_TEXTURE_FORMATS\<close>), and the log of
  every call made on it, in order. A WebGL call reports a failure through the context's
  error flag, not by throwing, so every call returns.
\<close>

datatype gl_call =
    GetExtension string
  | GetParameter number
  | PixelStorei number bool
  | CompressedTexSubImage2D number number number number number number number jsval
  | TexSubImage2D number number number number number number number number jsval
  | CompressedTexImage2D number number number number number number jsval
  | TexImage2D number number number number number number number number jsval

record WebGLRenderingContext =
  RGBA :: number
  RGB :: number
  UNPACK_PREMULTIPLY_ALPHA_WEBGL :: number
  COMPRESSED_TEXTURE_FORMATS :: number
  extensions :: "string list"
  driverFormats :: "number list"
  calls :: "gl_call list"

record Renderer =
  gl :: WebGLRenderingContext

record BaseTexture =
  format :: number
  type :: number
  target :: number
  width :: number
  height :: number
  premultiplyAlpha :: bool

record GLTexture =
  width :: number
  height :: number
  internalFormat :: number
  type :: number

definition invoke :: "WebGLRenderingContext \<Rightarrow> gl_call \<Rightarrow> WebGLRenderingContext" where
  "invoke g c = g\<lparr>calls := calls g @ [c]\<rparr>"

text \<open>\<open>getExtension\<close> returns an object or null; the code only tests the result.\<close>

definition getExtension :: "WebGLRenderingContext \<Rightarrow> string \<Rightarrow> bool \<times> WebGLRenderingContext" where
  "getExtension g name = (List.member (extensions g) name, invoke g (GetExtension name))"

text \<open>
  \<open>getParameter\<close> is only ever asked for \<open>COMPRESSED_TEXTURE_FORMATS\<close>; it answers with
  the driver's list and records the parameter it was asked for.
\<close>

definition getParameter :: "WebGLRenderingContext \<Rightarrow> number \<Rightarrow> number list \<times> WebGLRenderingContext" where
  "getParameter g pname = (driverFormats g, invoke g (GetParameter pname))"

definition pixelStorei :: "WebGLRenderingContext \<Rightarrow> number \<Rightarrow> bool \<Rightarrow> WebGLRenderingContext" where
  "pixelStorei g pname param = invoke g (PixelStorei pname param)"

section \<open>The format capability cache\<close>

text \<open>The loop \<open>for (let i = 0; i < formats.length; i++) push(formats[i])\<close>.\<close>

function push_formats :: "number list \<Rightarrow> nat \<Rightarrow> number list \<Rightarrow> number list" where
  "push_formats formats i acc =
     (if i < length formats then push_formats formats (Suc i) (acc @ [formats ! i]) else acc)"
  by pat_completeness auto
termination
  by (relation "measure (\<lambda>(formats, i, acc). length formats - i)") auto

declare push_formats.simps [simp del]

text \<open>
  The chain \<open>getExtension(a) || getExtension(b) || getExtension(c) || getExtension(d)\<close>:
  the lookups stop at the first one that succeeds.
\<close>

fun any_extension :: "WebGLRenderingContext \<Rightarrow> string list \<Rightarrow> bool \<times> WebGLRenderingContext" where
  "any_extension g [] = (False, g)"
| "any_extension g (name # names) =
     (case getExtension g name of
        (found, g') \<Rightarrow> if found then (True, g') else any_extension g' names)"

definition compressed_extension_names :: "string list" where
  "compressed_extension_names =
     [''WEBGL_compressed_texture_pvrtc'', ''WEBGL_compressed_texture_s3tc'',
      ''WEBGL_compressed_texture_etc1'', ''WEBGL_compressed_texture_astc'']"

text \<open>
  An array, even an empty one, is truthy: \<open>!this.compressedTextureFormats\<close> holds only
  while the field is absent.
\<close>

definition getCompressedTextureFormats ::
  "BufferResource \<Rightarrow> Renderer \<Rightarrow> number list \<times> BufferResource \<times> Renderer" where
  "getCompressedTextureFormats this renderer =
     (case compressedTextureFormats this of
        Some cached \<Rightarrow> (cached, this, renderer)
      | None \<Rightarrow>
          (case any_extension (gl renderer) compressed_extension_names of
             (found, g1) \<Rightarrow>
               if found
               then (case getParameter g1 (COMPRESSED_TEXTURE_FORMATS g1) of
                       (formats, g2) \<Rightarrow>
                         (let fs = push_formats formats 0 []
                          in (fs, this\<lparr>compressedTextureFormats := Some fs\<rparr>,
                              renderer\<lparr>gl := g2\<rparr>)))
               else ([], this\<lparr>compressedTextureFormats := Some []\<rparr>,
                     renderer\<lparr>gl := g1\<rparr>)))"

section \<open>Upload\<close>

text \<open>\<open>xs.indexOf(x)\<close>: the first index whose element is \<open>===\<close> to \<open>x\<close>, or \<open>-1\<close>.\<close>

fun indexOf_from :: "number list \<Rightarrow> number \<Rightarrow> int \<Rightarrow> int" where
  "indexOf_from [] x i = -1"
| "indexOf_from (y # ys) x i = (if strict_eq y x then i else indexOf_from ys x (i + 1))"

definition indexOf :: "number list \<Rightarrow> number \<Rightarrow> int" where
  "indexOf xs x = indexOf_from xs x 0"

text \<open>
  The classification \<open>a !== RGBA && a !== RGB && formats(renderer).indexOf(a) > -1\<close>, with
  the short circuit of \<open>&&\<close>: the cache is consulted only when both comparisons pass.
\<close>

definition compute_isCompressed ::
  "BufferResource \<Rightarrow> Renderer \<Rightarrow> number \<Rightarrow> bool \<times> BufferResource \<times> Renderer" where
  "compute_isCompressed this renderer internalFormat' =
     (if strict_eq internalFormat' (RGBA (gl renderer)) then (False, this, renderer)
      else if strict_eq internalFormat' (RGB (gl renderer)) then (False, this, renderer)
      else (case getCompressedTextureFormats this renderer of
              (fs, this', renderer') \<Rightarrow> (indexOf fs internalFormat' > -1, this', renderer')))"

definition upload ::
  "BufferResource \<Rightarrow> Renderer \<Rightarrow> BaseTexture \<Rightarrow> GLTexture
     \<Rightarrow> bool \<times> BufferResource \<times> Renderer \<times> GLTexture" where
  "upload this renderer baseTexture glTexture =
     (let internalFormat' = BaseTexture.format baseTexture in
      case compute_isCompressed this renderer internalFormat' of
        (isCompressed, this1, renderer1) \<Rightarrow>
      let g = pixelStorei (gl renderer1) (UNPACK_PREMULTIPLY_ALPHA_WEBGL (gl renderer1))
                (premultiplyAlpha baseTexture)
      in
      if strict_eq (GLTexture.width glTexture) (BaseTexture.width baseTexture)
         \<and> strict_eq (GLTexture.height glTexture) (BaseTexture.height baseTexture)
      then
        (if isCompressed
         then (True, this1,
               renderer1\<lparr>gl := invoke g
                 (CompressedTexSubImage2D (target baseTexture) (Num 0) (Num 0) (Num 0)
                    (BaseTexture.width baseTexture) (BaseTexture.height baseTexture)
                    internalFormat' (data this1))\<rparr>,
               glTexture)
         else (True, this1,
               renderer1\<lparr>gl := invoke g
                 (TexSubImage2D (target baseTexture) (Num 0) (Num 0) (Num 0)
                    (BaseTexture.width baseTexture) (BaseTexture.height baseTexture)
                    internalFormat' (BaseTexture.type baseTexture) (data this1))\<rparr>,
               glTexture))
      else
        (let glTexture1 = glTexture\<lparr>GLTexture.width := BaseTexture.width baseTexture,
                                    GLTexture.height := BaseTexture.height baseTexture\<rparr>
         in
         if isCompressed
         then (True, this1,
               renderer1\<lparr>gl := invoke g
                 (CompressedTexImage2D (target baseTexture) (Num 0) internalFormat'
                    (BaseTexture.width baseTexture) (BaseTexture.height baseTexture)
                    (Num 0) (data this1))\<rparr>,
               glTexture1)
         else (True, this1,
               renderer1\<lparr>gl := invoke g
                 (TexImage2D (target baseTexture) (Num 0) (internalFormat glTexture1)
                    (BaseTexture.width baseTexture) (BaseTexture.height baseTexture)
                    (Num 0) internalFormat' (GLTexture.type glTexture1) (data this1))\<rparr>,
               glTexture1)))"

section \<open>Observing a run\<close>

text \<open>The four components of what \<open>upload\<close> returns and leaves behind.\<close>

definition result_of :: "bool \<times> BufferResource \<times> Renderer \<times> GLTexture \<Rightarrow> bool" where
  "result_of u = fst u"

definition resource_of :: "bool \<times> BufferResource \<times> Renderer \<times> GLTexture \<Rightarrow> BufferResource" where
  "resource_of u = fst (snd u)"

definition renderer_of :: "bool \<times> BufferResource \<times> Renderer \<times> GLTexture \<Rightarrow> Renderer" where
  "renderer_of u = fst (snd (snd u))"

definition glTexture_of :: "bool \<times> BufferResource \<times> Renderer \<times> GLTexture \<Rightarrow> GLTexture" where
  "glTexture_of u = snd (snd (snd u))"

text \<open>The calls an operation added to the log of the context it was given.\<close>

definition new_calls :: "Renderer \<Rightarrow> Renderer \<Rightarrow> gl_call list" where
  "new_calls before after = drop (length (calls (gl before))) (calls (gl after))"

fun is_sub_image :: "gl_call \<Rightarrow> bool" where
  "is_sub_image (CompressedTexSubImage2D t l x y w h f d) = True"
| "is_sub_image (TexSubImage2D t l x y w h f ty d) = True"
| "is_sub_image c = False"

fun is_full_image :: "gl_call \<Rightarrow> bool" where
  "is_full_image (CompressedTexImage2D t l f w h b d) = True"
| "is_full_image (TexImage2D t l i w h b f ty d) = True"
| "is_full_image c = False"

fun is_compressed :: "gl_call \<Rightarrow> bool" where
  "is_compressed (CompressedTexSubImage2D t l x y w h f d) = True"
| "is_compressed (CompressedTexImage2D t l f w h b d) = True"
| "is_compressed c = False"

fun is_query :: "gl_call \<Rightarrow> bool" where
  "is_query (GetExtension name) = True"
| "is_query (GetParameter pname) = True"
| "is_query c = False"

definition is_transfer :: "gl_call \<Rightarrow> bool" where
  "is_transfer c = (is_sub_image c \<or> is_full_image c)"

text \<open>The calls one \<open>upload\<close> makes on the context, in order.\<close>

definition upload_calls ::
  "BufferResource \<Rightarrow> Renderer \<Rightarrow> BaseTexture \<Rightarrow> GLTexture \<Rightarrow> gl_call list" where
  "upload_calls this renderer baseTexture glTexture =
     new_calls renderer (renderer_of (upload this renderer baseTexture glTexture))"

text \<open>
  The behaviour the specification gives for the format capability cache of a context:
  the driver's list, in the driver's order, when one of the four extension families is
  available, and the empty sequence otherwise.
\<close>

definition context_formats :: "WebGLRenderingContext \<Rightarrow> number list" where
  "context_formats g =
     (if list_ex (List.member (extensions g)) compressed_extension_names
      then driverFormats g else [])"

text \<open>\<open>x\<close> appears in \<open>xs\<close>, by the comparison \<open>indexOf\<close> uses.\<close>

definition appears_in :: "number \<Rightarrow> number list \<Rightarrow> bool" where
  "appears_in x xs = list_ex (\<lambda>y. strict_eq y x) xs"

text \<open>
  The values the specification calls missing, zero, or otherwise falsy: a property that
  is not there reads as \<open>undefined\<close>.
\<close>

definition missing_zero_or_falsy :: "jsval \<Rightarrow> bool" where
  "missing_zero_or_falsy v =
     (v = Undefined \<or> v = Null \<or> v = Boolean False \<or> v = Number (Num 0)
      \<or> v = Number NaN \<or> v = String [])"

text \<open>
  What kind of buffer a value is: the element kind a typed array was created with,
  whatever its prototype chain.
\<close>

fun buffer_kind :: "jsval \<Rightarrow> array_kind option" where
  "buffer_kind (TypedArray chain k xs fs) = Some k"
| "buffer_kind v = None"

text \<open>The prototype chain of an object; a primitive has none for \<open>instanceof\<close> to walk.\<close>

fun prototypes :: "jsval \<Rightarrow> prototype list" where
  "prototypes (Array chain xs fs) = chain"
| "prototypes (TypedArray chain k xs fs) = chain"
| "prototypes (Object chain fs) = chain"
| "prototypes v = []"

text \<open>
  A value is native to a realm when it is a primitive, or an object whose prototype
  chain is the one the realm's constructor or literal for it gives, with the
  prototypes of subclasses, if any, in front.
\<close>

fun is_user_prototype :: "prototype \<Rightarrow> bool" where
  "is_user_prototype (UserPrototype i) = True"
| "is_user_prototype p = False"

fun native_to :: "realm \<Rightarrow> jsval \<Rightarrow> bool" where
  "native_to r (Array chain xs fs) = (dropWhile is_user_prototype chain = array_chain r)"
| "native_to r (TypedArray chain k xs fs) =
     (dropWhile is_user_prototype chain = typed_array_chain r k)"
| "native_to r (Object chain fs) = (dropWhile is_user_prototype chain = object_chain r)"
| "native_to r v = True"

text \<open>The specification's \<open>width > 0\<close>: a number, and greater than zero.\<close>

fun positive :: "jsval \<Rightarrow> bool" where
  "positive (Number (Num x)) = (0 < x)"
| "positive (Number PosInfinity) = True"
| "positive v = False"

text \<open>The operations on a constructed resource, and a resource after a sequence of them.\<close>

datatype operation =
    Upload Renderer BaseTexture GLTexture
  | CompressedFormats Renderer
  | Dispose

fun perform :: "BufferResource \<Rightarrow> operation \<Rightarrow> BufferResource" where
  "perform this (Upload renderer baseTexture glTexture) =
     resource_of (upload this renderer baseTexture glTexture)"
| "perform this (CompressedFormats renderer) =
     fst (snd (getCompressedTextureFormats this renderer))"
| "perform this Dispose = dispose this"

fun perform_all :: "BufferResource \<Rightarrow> operation list \<Rightarrow> BufferResource" where
  "perform_all this [] = this"
| "perform_all this (operation # operations) = perform_all (perform this operation) operations"

section \<open>Example contexts and textures\<close>

text \<open>
  A context whose driver offers S3TC with its four formats, and one without any
  compressed-texture extension. The constants are WebGL's.
\<close>

definition s3tc_gl :: WebGLRenderingContext where
  "s3tc_gl = \<lparr>RGBA = Num 6408, RGB = Num 6407, UNPACK_PREMULTIPLY_ALPHA_WEBGL = Num 37441,
     COMPRESSED_TEXTURE_FORMATS = Num 34467,
     extensions = [''WEBGL_compressed_texture_s3tc''],
     driverFormats = [Num 33776, Num 33777, Num 33778, Num 33779],
     calls = []\<rparr>"

definition plain_gl :: WebGLRenderingContext where
  "plain_gl = \<lparr>RGBA = Num 6408, RGB = Num 6407, UNPACK_PREMULTIPLY_ALPHA_WEBGL = Num 37441,
     COMPRESSED_TEXTURE_FORMATS = Num 34467,
     extensions = [''OES_texture_float''],
     driverFormats = [],
     calls = []\<rparr>"

definition s3tc_renderer :: Renderer where
  "s3tc_renderer = \<lparr>gl = s3tc_gl\<rparr>"

definition plain_renderer :: Renderer where
  "plain_renderer = \<lparr>gl = plain_gl\<rparr>"

definition pixels :: jsval where
  "pixels = TypedArray (typed_array_chain ThisRealm Float32) Float32 (replicate 64 (Num 1)) []"

definition size_4x4 :: jsval where
  "size_4x4 = Object (object_chain ThisRealm)
     [(''width'', Number (Num 4)), (''height'', Number (Num 4))]"

definition resource_4x4 :: BufferResource where
  "resource_4x4 = Resource.extend \<lparr>Resource.width = Number (Num 4), Resource.height = Number (Num 4)\<rparr>
     (BufferResource.fields pixels None)"

text \<open>The resource after its formats have been queried on the S3TC context.\<close>

definition queried_4x4 :: BufferResource where
  "queried_4x4 = fst (snd (getCompressedTextureFormats resource_4x4 s3tc_renderer))"

text \<open>
  A \<open>Float32Array\<close> made by another realm's constructor, and an ordinary object made
  with \<open>Object.create(Uint8Array.prototype)\<close>.
\<close>

definition foreign_floats :: jsval where
  "foreign_floats =
     TypedArray (typed_array_chain (OtherRealm 1) Float32) Float32 (replicate 64 (Num 1)) []"

definition bare_instance :: jsval where
  "bare_instance = Object (typed_array_chain ThisRealm Uint8) []"

text \<open>Options with a zero width, and options with a negative width.\<close>

definition size_0x4 :: jsval where
  "size_0x4 = Object (object_chain ThisRealm)
     [(''width'', Number (Num 0)), (''height'', Number (Num 4))]"

definition size_negative :: jsval where
  "size_negative = Object (object_chain ThisRealm)
     [(''width'', Number (Num (- 1))), (''height'', Number (Num 4))]"

definition resource_negative :: BufferResource where
  "resource_negative = Resource.extend
     \<lparr>Resource.width = Number (Num (- 1)), Resource.height = Number (Num 4)\<rparr>
     (BufferResource.fields pixels None)"

text \<open>A 4 by 4, premultiplied 2D texture of floats in the given format.\<close>

definition texture_4x4 :: "number \<Rightarrow> BaseTexture" where
  "texture_4x4 f = \<lparr>format = f, type = Num 5126, target = Num 3553,
     width = Num 4, height = Num 4, premultiplyAlpha = True\<rparr>"

definition handle :: "number \<Rightarrow> number \<Rightarrow> GLTexture" where
  "handle w h = \<lparr>width = w, height = h, internalFormat = Num 6408, type = Num 5126\<rparr>"

section \<open>Facts about the cache and the classification\<close>

lemma push_formats_drop: "i \<le> length formats \<Longrightarrow> push_formats formats i acc = acc @ drop i formats"
proof (induction formats i acc rule: push_formats.induct)
  case (1 formats i acc)
  show ?case
  proof (cases "i < length formats")
    case True
    then show ?thesis using 1 by (subst push_formats.simps) (simp add: Cons_nth_drop_Suc)
  next
    case False
    then show ?thesis using 1 by (subst push_formats.simps) simp
  qed
qed

lemma push_formats_all: "push_formats formats 0 [] = formats"
  by (simp add: push_formats_drop)

lemma indexOf_from_found: "0 \<le> i \<Longrightarrow> (indexOf_from xs x i > -1) = appears_in x xs"
  by (induction xs arbitrary: i) (auto simp: appears_in_def)

lemma indexOf_found: "(indexOf xs x > -1) = appears_in x xs"
  by (simp add: indexOf_def indexOf_from_found)

lemma any_extension_found:
  "fst (any_extension g names) = list_ex (List.member (extensions g)) names"
proof (induction names arbitrary: g)
  case Nil
  show ?case by simp
next
  case (Cons name names)
  have "extensions (invoke g (GetExtension name)) = extensions g"
    by (simp add: invoke_def)
  with Cons[of "invoke g (GetExtension name)"] show ?case
    by (simp add: getExtension_def)
qed

lemma any_extension_log:
  "\<exists>cs. snd (any_extension g names) = g\<lparr>calls := calls g @ cs\<rparr> \<and> list_all is_query cs"
proof (induction names arbitrary: g)
  case Nil
  have "g = g\<lparr>calls := calls g @ []\<rparr>" by simp
  then show ?case by (intro exI[of _ "[]"]) simp
next
  case (Cons name names)
  let ?g = "invoke g (GetExtension name)"
  from Cons[of ?g] obtain cs where
    cs: "snd (any_extension ?g names) = ?g\<lparr>calls := calls ?g @ cs\<rparr>" "list_all is_query cs"
    by blast
  show ?case
  proof (cases "List.member (extensions g) name")
    case True
    then have "snd (any_extension g (name # names)) = g\<lparr>calls := calls g @ [GetExtension name]\<rparr>"
      by (simp add: getExtension_def invoke_def)
    then show ?thesis by (intro exI[of _ "[GetExtension name]"]) simp
  next
    case False
    then have "snd (any_extension g (name # names)) = g\<lparr>calls := calls g @ (GetExtension name # cs)\<rparr>"
      using cs(1) by (simp add: getExtension_def invoke_def)
    then show ?thesis using cs(2) by (intro exI[of _ "GetExtension name # cs"]) simp
  qed
qed

lemma getCompressedTextureFormats_cached:
  "compressedTextureFormats this = Some fs \<Longrightarrow>
   getCompressedTextureFormats this renderer = (fs, this, renderer)"
  by (simp add: getCompressedTextureFormats_def)

lemma getCompressedTextureFormats_fresh:
  assumes "compressedTextureFormats this = None"
  shows "\<exists>cs. getCompressedTextureFormats this renderer =
           (context_formats (gl renderer),
            this\<lparr>compressedTextureFormats := Some (context_formats (gl renderer))\<rparr>,
            renderer\<lparr>gl := (gl renderer)\<lparr>calls := calls (gl renderer) @ cs\<rparr>\<rparr>)
         \<and> list_all is_query cs"
proof -
  obtain found g1 where a: "any_extension (gl renderer) compressed_extension_names = (found, g1)"
    by (cases "any_extension (gl renderer) compressed_extension_names")
  from any_extension_found[of "gl renderer" compressed_extension_names] a
  have found: "found = list_ex (List.member (extensions (gl renderer))) compressed_extension_names"
    by simp
  from any_extension_log[of "gl renderer" compressed_extension_names] a
  obtain cs where cs: "g1 = (gl renderer)\<lparr>calls := calls (gl renderer) @ cs\<rparr>" "list_all is_query cs"
    by auto
  show ?thesis
  proof (cases found)
    case True
    then have "getCompressedTextureFormats this renderer =
           (context_formats (gl renderer),
            this\<lparr>compressedTextureFormats := Some (context_formats (gl renderer))\<rparr>,
            renderer\<lparr>gl := (gl renderer)\<lparr>calls := calls (gl renderer) @ (cs @ [GetParameter (COMPRESSED_TEXTURE_FORMATS (gl renderer))])\<rparr>\<rparr>)"
      using assms a found cs(1)
      by (simp add: getCompressedTextureFormats_def getParameter_def invoke_def
            push_formats_all context_formats_def)
    moreover have "list_all is_query (cs @ [GetParameter (COMPRESSED_TEXTURE_FORMATS (gl renderer))])"
      using cs(2) by simp
    ultimately show ?thesis by blast
  next
    case False
    then have "getCompressedTextureFormats this renderer =
           (context_formats (gl renderer),
            this\<lparr>compressedTextureFormats := Some (context_formats (gl renderer))\<rparr>,
            renderer\<lparr>gl := (gl renderer)\<lparr>calls := calls (gl renderer) @ cs\<rparr>\<rparr>)"
      using assms a found cs(1)
      by (simp add: getCompressedTextureFormats_def context_formats_def)
    then show ?thesis using cs(2) by blast
  qed
qed


lemma getCompressedTextureFormats_shape:
  "\<exists>fs cs. getCompressedTextureFormats this renderer =
           (fs, this\<lparr>compressedTextureFormats := Some fs\<rparr>,
            renderer\<lparr>gl := (gl renderer)\<lparr>calls := calls (gl renderer) @ cs\<rparr>\<rparr>)
         \<and> list_all is_query cs"
proof (cases "compressedTextureFormats this")
  case None
  from getCompressedTextureFormats_fresh[OF None, of renderer] show ?thesis by blast
next
  case (Some fs)
  have "this\<lparr>compressedTextureFormats := Some fs\<rparr> = this" using Some by simp
  moreover have "renderer\<lparr>gl := (gl renderer)\<lparr>calls := calls (gl renderer) @ []\<rparr>\<rparr> = renderer"
    by simp
  ultimately have "getCompressedTextureFormats this renderer =
           (fs, this\<lparr>compressedTextureFormats := Some fs\<rparr>,
            renderer\<lparr>gl := (gl renderer)\<lparr>calls := calls (gl renderer) @ []\<rparr>\<rparr>)"
    using getCompressedTextureFormats_cached[OF Some, of renderer] by simp
  then show ?thesis by (intro exI[of _ fs] exI[of _ "[]"]) simp
qed

lemma compute_isCompressed_shape:
  "\<exists>this' cs. compute_isCompressed this renderer f =
       (\<not> strict_eq f (RGBA (gl renderer)) \<and> \<not> strict_eq f (RGB (gl renderer))
          \<and> appears_in f (fst (getCompressedTextureFormats this renderer)),
        this',
        renderer\<lparr>gl := (gl renderer)\<lparr>calls := calls (gl renderer) @ cs\<rparr>\<rparr>)
     \<and> list_all is_query cs
     \<and> data this' = data this
     \<and> Resource.width this' = Resource.width this
     \<and> Resource.height this' = Resource.height this
     \<and> (strict_eq f (RGBA (gl renderer)) \<or> strict_eq f (RGB (gl renderer))
          \<longrightarrow> this' = this \<and> cs = [])"
proof (cases "strict_eq f (RGBA (gl renderer)) \<or> strict_eq f (RGB (gl renderer))")
  case True
  have "renderer\<lparr>gl := (gl renderer)\<lparr>calls := calls (gl renderer) @ []\<rparr>\<rparr> = renderer"
    by simp
  then have "compute_isCompressed this renderer f =
       (False, this, renderer\<lparr>gl := (gl renderer)\<lparr>calls := calls (gl renderer) @ []\<rparr>\<rparr>)"
    using True by (auto simp: compute_isCompressed_def)
  then show ?thesis using True by (intro exI[of _ this] exI[of _ "[]"]) auto
next
  case False
  from getCompressedTextureFormats_shape[of this renderer] obtain fs cs where
    g: "getCompressedTextureFormats this renderer =
           (fs, this\<lparr>compressedTextureFormats := Some fs\<rparr>,
            renderer\<lparr>gl := (gl renderer)\<lparr>calls := calls (gl renderer) @ cs\<rparr>\<rparr>)"
    and cs: "list_all is_query cs"
    by blast
  from False g have "compute_isCompressed this renderer f =
       (appears_in f fs, this\<lparr>compressedTextureFormats := Some fs\<rparr>,
        renderer\<lparr>gl := (gl renderer)\<lparr>calls := calls (gl renderer) @ cs\<rparr>\<rparr>)"
    by (simp add: compute_isCompressed_def indexOf_found)
  then show ?thesis using False g cs
    by (intro exI[of _ "this\<lparr>compressedTextureFormats := Some fs\<rparr>"] exI[of _ cs]) simp
qed

lemma query_not_transfer: "list_all is_query cs \<Longrightarrow> filter is_transfer cs = []"
  by (induction cs) (auto simp: is_transfer_def elim: is_query.elims)

lemma query_not_sub_image: "list_all is_query cs \<Longrightarrow> filter is_sub_image cs = []"
  by (induction cs) (auto elim: is_query.elims)

lemma query_not_full_image: "list_all is_query cs \<Longrightarrow> filter is_full_image cs = []"
  by (induction cs) (auto elim: is_query.elims)

text \<open>What \<open>upload\<close> does, given the outcome of the classification.\<close>

lemma upload_after_classification:
  assumes "compute_isCompressed this renderer (BaseTexture.format baseTexture) =
             (isCompressed, this',
              renderer\<lparr>gl := (gl renderer)\<lparr>calls := calls (gl renderer) @ cs\<rparr>\<rparr>)"
  shows "upload this renderer baseTexture glTexture =
    (True, this',
     renderer\<lparr>gl := (gl renderer)\<lparr>calls := calls (gl renderer) @ cs @
       [PixelStorei (UNPACK_PREMULTIPLY_ALPHA_WEBGL (gl renderer)) (premultiplyAlpha baseTexture),
        if strict_eq (GLTexture.width glTexture) (BaseTexture.width baseTexture)
           \<and> strict_eq (GLTexture.height glTexture) (BaseTexture.height baseTexture)
        then (if isCompressed
              then CompressedTexSubImage2D (target baseTexture) (Num 0) (Num 0) (Num 0)
                     (BaseTexture.width baseTexture) (BaseTexture.height baseTexture)
                     (BaseTexture.format baseTexture) (data this')
              else TexSubImage2D (target baseTexture) (Num 0) (Num 0) (Num 0)
                     (BaseTexture.width baseTexture) (BaseTexture.height baseTexture)
                     (BaseTexture.format baseTexture) (BaseTexture.type baseTexture) (data this'))
        else (if isCompressed
              then CompressedTexImage2D (target baseTexture) (Num 0)
                     (BaseTexture.format baseTexture)
                     (BaseTexture.width baseTexture) (BaseTexture.height baseTexture)
                     (Num 0) (data this')
              else TexImage2D (target baseTexture) (Num 0) (internalFormat glTexture)
                     (BaseTexture.width baseTexture) (BaseTexture.height baseTexture)
                     (Num 0) (BaseTexture.format baseTexture) (GLTexture.type glTexture)
                     (data this'))]\<rparr>\<rparr>,
     if strict_eq (GLTexture.width glTexture) (BaseTexture.width baseTexture)
        \<and> strict_eq (GLTexture.height glTexture) (BaseTexture.height baseTexture)
     then glTexture
     else glTexture\<lparr>GLTexture.width := BaseTexture.width baseTexture,
                    GLTexture.height := BaseTexture.height baseTexture\<rparr>)"
  using assms by (simp add: upload_def Let_def pixelStorei_def invoke_def)


lemma upload_calls_after_classification:
  assumes "compute_isCompressed this renderer (BaseTexture.format baseTexture) =
             (isCompressed, this',
              renderer\<lparr>gl := (gl renderer)\<lparr>calls := calls (gl renderer) @ cs\<rparr>\<rparr>)"
  shows "upload_calls this renderer baseTexture glTexture = cs @
       [PixelStorei (UNPACK_PREMULTIPLY_ALPHA_WEBGL (gl renderer)) (premultiplyAlpha baseTexture),
        if strict_eq (GLTexture.width glTexture) (BaseTexture.width baseTexture)
           \<and> strict_eq (GLTexture.height glTexture) (BaseTexture.height baseTexture)
        then (if isCompressed
              then CompressedTexSubImage2D (target baseTexture) (Num 0) (Num 0) (Num 0)
                     (BaseTexture.width baseTexture) (BaseTexture.height baseTexture)
                     (BaseTexture.format baseTexture) (data this')
              else TexSubImage2D (target baseTexture) (Num 0) (Num 0) (Num 0)
                     (BaseTexture.width baseTexture) (BaseTexture.height baseTexture)
                     (BaseTexture.format baseTexture) (BaseTexture.type baseTexture) (data this'))
        else (if isCompressed
              then CompressedTexImage2D (target baseTexture) (Num 0)
                     (BaseTexture.format baseTexture)
                     (BaseTexture.width baseTexture) (BaseTexture.height baseTexture)
                     (Num 0) (data this')
              else TexImage2D (target baseTexture) (Num 0) (internalFormat glTexture)
                     (BaseTexture.width baseTexture) (BaseTexture.height baseTexture)
                     (Num 0) (BaseTexture.format baseTexture) (GLTexture.type glTexture)
                     (data this'))]"
  unfolding upload_calls_def upload_after_classification[OF assms] renderer_of_def
  by (simp add: new_calls_def)

text \<open>The default \<open>options || {}\<close> changes nothing a property read can see.\<close>

lemma get_prop_default:
  "get_prop (if truthy options then options else Object (object_chain ThisRealm) []) name
     = get_prop options name"
  by (cases options) auto

lemma falsy_values: "(\<not> truthy v) = missing_zero_or_falsy v"
proof (cases v)
  case (Number n)
  then show ?thesis by (cases n) (auto simp: missing_zero_or_falsy_def)
qed (auto simp: missing_zero_or_falsy_def)

text \<open>No operation assigns to the resource's width or height.\<close>

lemma perform_keeps_dimensions:
  "Resource.width (perform this operation) = Resource.width this
   \<and> Resource.height (perform this operation) = Resource.height this"
proof (cases operation)
  case (Upload renderer baseTexture glTexture)
  from compute_isCompressed_shape[of this renderer "BaseTexture.format baseTexture"]
  obtain b this' cs where
    c: "compute_isCompressed this renderer (BaseTexture.format baseTexture) =
          (b, this', renderer\<lparr>gl := (gl renderer)\<lparr>calls := calls (gl renderer) @ cs\<rparr>\<rparr>)"
    and d: "Resource.width this' = Resource.width this" "Resource.height this' = Resource.height this"
    by blast
  show ?thesis
    by (simp add: Upload upload_after_classification[OF c] resource_of_def d)
next
  case (CompressedFormats renderer)
  from getCompressedTextureFormats_shape[of this renderer] obtain fs cs where
    "getCompressedTextureFormats this renderer =
           (fs, this\<lparr>compressedTextureFormats := Some fs\<rparr>,
            renderer\<lparr>gl := (gl renderer)\<lparr>calls := calls (gl renderer) @ cs\<rparr>\<rparr>)"
    by blast
  then show ?thesis by (simp add: CompressedFormats)
next
  case Dispose
  then show ?thesis by (simp add: dispose_def)
qed

lemma perform_all_keeps_dimensions:
  "Resource.width (perform_all this operations) = Resource.width this
   \<and> Resource.height (perform_all this operations) = Resource.height this"
  by (induction operations arbitrary: this) (simp_all add: perform_keeps_dimensions)

text \<open>Unfolding the model on a concrete input.\<close>

lemmas run_defs =
  upload_calls_def new_calls_def upload_def compute_isCompressed_def
  getCompressedTextureFormats_def compressed_extension_names_def getExtension_def
  getParameter_def pixelStorei_def invoke_def indexOf_def strict_eq_def
  result_of_def resource_of_def renderer_of_def glTexture_of_def
  Resource.extend_def BufferResource.fields_def Let_def

lemmas example_defs =
  s3tc_renderer_def plain_renderer_def s3tc_gl_def plain_gl_def
  resource_4x4_def texture_4x4_def handle_def queried_4x4_def

section \<open>Construction\<close>

text \<open>
  C4. With \<open>width\<close> and \<open>height\<close> both given and truthy, construction succeeds and
  the resource reports exactly those two values, holds the source as its data and has
  no format cache yet. Construction fails, with the error \<open>BufferResource width or
  height invalid\<close> and without any resource, if and only if the width or the height is
  missing, zero or otherwise falsy.
\<close>

theorem construction_checks_dimensions:
  "(truthy (get_prop options ''width'') \<and> truthy (get_prop options ''height'') \<longrightarrow>
      (\<exists>this. BufferResource_new source options = Inr this
         \<and> Resource.width this = get_prop options ''width''
         \<and> Resource.height this = get_prop options ''height''
         \<and> data this = source \<and> compressedTextureFormats this = None))
   \<and> ((\<exists>e. BufferResource_new source options = Inl e) \<longleftrightarrow>
        missing_zero_or_falsy (get_prop options ''width'')
        \<or> missing_zero_or_falsy (get_prop options ''height''))
   \<and> ((\<exists>e. BufferResource_new source options = Inl e) \<longrightarrow>
        BufferResource_new source options = Inl (Error ''BufferResource width or height invalid''))"
proof -
  let ?w = "get_prop options ''width''" and ?h = "get_prop options ''height''"
  have ok: "BufferResource_new source options =
      Inr (Resource.extend (Resource_new ?w ?h) (BufferResource.fields source None))"
    if "truthy ?w" "truthy ?h"
    using that by (simp add: BufferResource_new_def Let_def get_prop_default)
  have bad: "BufferResource_new source options = Inl (Error ''BufferResource width or height invalid'')"
    if "\<not> truthy ?w \<or> \<not> truthy ?h"
    using that by (auto simp: BufferResource_new_def Let_def get_prop_default)
  have fields: "Resource.width (Resource.extend (Resource_new ?w ?h) (BufferResource.fields source None)) = ?w"
    "Resource.height (Resource.extend (Resource_new ?w ?h) (BufferResource.fields source None)) = ?h"
    "data (Resource.extend (Resource_new ?w ?h) (BufferResource.fields source None)) = source"
    "compressedTextureFormats (Resource.extend (Resource_new ?w ?h) (BufferResource.fields source None)) = None"
    by (simp_all add: Resource_new_def Resource.extend_def BufferResource.fields_def)
  show ?thesis
  proof (cases "truthy ?w \<and> truthy ?h")
    case True
    then show ?thesis using ok fields falsy_values by auto
  next
    case False
    then show ?thesis using bad falsy_values by auto
  qed
qed

theorem construction_checks_dimensions_witness:
  "truthy (get_prop size_4x4 ''width'') \<and> truthy (get_prop size_4x4 ''height'')
   \<and> BufferResource_new pixels size_4x4 = Inr resource_4x4
   \<and> Resource.width resource_4x4 = Number (Num 4)
   \<and> Resource.height resource_4x4 = Number (Num 4)
   \<and> missing_zero_or_falsy (get_prop size_0x4 ''width'')
   \<and> BufferResource_new pixels size_0x4 = Inl (Error ''BufferResource width or height invalid'')"
proof -
  have t: "truthy (get_prop size_4x4 ''width'')" "truthy (get_prop size_4x4 ''height'')"
    by (simp_all add: size_4x4_def)
  have z: "missing_zero_or_falsy (get_prop size_0x4 ''width'')"
    by (simp add: size_0x4_def missing_zero_or_falsy_def)
  from construction_checks_dimensions[of size_4x4 pixels] t obtain this where
    r: "BufferResource_new pixels size_4x4 = Inr this"
    and w: "Resource.width this = get_prop size_4x4 ''width''"
    and h: "Resource.height this = get_prop size_4x4 ''height''"
    and d: "data this = pixels" and c: "compressedTextureFormats this = None"
    by blast
  have same: "this = resource_4x4"
    using w h d c
    by (cases this) (simp add: resource_4x4_def size_4x4_def Resource.extend_def
          BufferResource.fields_def)
  from construction_checks_dimensions[of size_0x4 pixels] z
  have e: "BufferResource_new pixels size_0x4 = Inl (Error ''BufferResource width or height invalid'')"
    by blast
  have dims: "Resource.width resource_4x4 = Number (Num 4)" "Resource.height resource_4x4 = Number (Num 4)"
    by (simp_all add: resource_4x4_def Resource.extend_def BufferResource.fields_def)
  from t z r same e dims show ?thesis by simp
qed

text \<open>
  C5, as amended. The constructor tests \<open>!width || !height\<close>, so what holds of a
  constructed resource is that its width and height are truthy: a number among them is
  neither zero nor \<open>NaN\<close>, and it may be negative. No sequence of \<open>upload\<close>,
  \<open>getCompressedTextureFormats\<close> and \<open>dispose\<close> calls, and no single one, changes the
  width or the height.
\<close>

theorem dimensions_truthy_and_fixed:
  assumes "BufferResource_new source options = Inr this"
  shows "truthy (Resource.width (perform_all this operations))
    \<and> truthy (Resource.height (perform_all this operations))
    \<and> Resource.width (perform_all this operations) = Resource.width this
    \<and> Resource.height (perform_all this operations) = Resource.height this
    \<and> Resource.width (perform this operation) = Resource.width this
    \<and> Resource.height (perform this operation) = Resource.height this"
proof -
  from assms have "truthy (Resource.width this) \<and> truthy (Resource.height this)"
    by (auto simp: BufferResource_new_def Let_def Resource_new_def Resource.extend_def
          BufferResource.fields_def split: if_splits)
  then show ?thesis
    by (simp add: perform_all_keeps_dimensions perform_keeps_dimensions)
qed

theorem dimensions_truthy_and_fixed_witness:
  "BufferResource_new pixels size_4x4 = Inr resource_4x4
   \<and> Resource.width (perform_all resource_4x4
        [Upload s3tc_renderer (texture_4x4 (Num 33776)) (handle (Num 0) (Num 0)),
         CompressedFormats plain_renderer, Dispose]) = Number (Num 4)
   \<and> Resource.height (perform_all resource_4x4
        [Upload s3tc_renderer (texture_4x4 (Num 33776)) (handle (Num 0) (Num 0)),
         CompressedFormats plain_renderer, Dispose]) = Number (Num 4)
   \<and> truthy (Number (Num 4))"
proof -
  have new: "BufferResource_new pixels size_4x4 = Inr resource_4x4"
    by (simp add: BufferResource_new_def size_4x4_def resource_4x4_def Resource_new_def Let_def)
  have dims: "Resource.width resource_4x4 = Number (Num 4)" "Resource.height resource_4x4 = Number (Num 4)"
    by (simp_all add: resource_4x4_def Resource.extend_def BufferResource.fields_def)
  let ?ops = "[Upload s3tc_renderer (texture_4x4 (Num 33776)) (handle (Num 0) (Num 0)),
         CompressedFormats plain_renderer, Dispose]"
  from dimensions_truthy_and_fixed[OF new, of ?ops] have
    t: "truthy (Resource.width (perform_all resource_4x4 ?ops))"
    and w: "Resource.width (perform_all resource_4x4 ?ops) = Resource.width resource_4x4"
    and h: "Resource.height (perform_all resource_4x4 ?ops) = Resource.height resource_4x4"
    by blast+
  from w h dims have wh: "Resource.width (perform_all resource_4x4 ?ops) = Number (Num 4)"
    "Resource.height (perform_all resource_4x4 ?ops) = Number (Num 4)"
    by (simp_all only:)
  from t wh(1) have "truthy (Number (Num 4))" by (simp only:)
  with new wh show ?thesis by blast
qed

text \<open>
  C5 as stated fails: a width of \<open>-1\<close> is truthy, construction succeeds, and the
  resource's width is not greater than zero.
\<close>

theorem live_resource_positive_counterexample:
  "BufferResource_new pixels size_negative = Inr resource_negative
   \<and> \<not> positive (Resource.width resource_negative)"
  by (simp add: BufferResource_new_def size_negative_def resource_negative_def
        Resource_new_def Let_def Resource.extend_def BufferResource.fields_def)

section \<open>Memoisation\<close>

text \<open>
  C6. A second \<open>getCompressedTextureFormats\<close> call on the same resource, on the context
  as the first call left it or on any other, returns the sequence the first call
  returned and leaves resource and context as they are: nothing is added to the
  context's log, so there is no extension lookup and no parameter query. The first
  result may be any sequence, the empty one included.
\<close>

theorem getCompressedTextureFormats_memoized:
  "getCompressedTextureFormats (fst (snd (getCompressedTextureFormats this renderer))) renderer'
     = (fst (getCompressedTextureFormats this renderer),
        fst (snd (getCompressedTextureFormats this renderer)),
        renderer')
   \<and> new_calls (snd (snd (getCompressedTextureFormats this renderer)))
        (snd (snd (getCompressedTextureFormats
           (fst (snd (getCompressedTextureFormats this renderer)))
           (snd (snd (getCompressedTextureFormats this renderer)))))) = []"
proof -
  from getCompressedTextureFormats_shape[of this renderer] obtain fs cs where
    g: "getCompressedTextureFormats this renderer =
           (fs, this\<lparr>compressedTextureFormats := Some fs\<rparr>,
            renderer\<lparr>gl := (gl renderer)\<lparr>calls := calls (gl renderer) @ cs\<rparr>\<rparr>)"
    by blast
  have again: "getCompressedTextureFormats (this\<lparr>compressedTextureFormats := Some fs\<rparr>) r
      = (fs, this\<lparr>compressedTextureFormats := Some fs\<rparr>, r)" for r
    by (simp add: getCompressedTextureFormats_cached)
  show ?thesis by (simp add: g again new_calls_def)
qed

theorem getCompressedTextureFormats_memoized_witness:
  "getCompressedTextureFormats resource_4x4 plain_renderer =
     ([], resource_4x4\<lparr>compressedTextureFormats := Some []\<rparr>,
      \<lparr>gl = plain_gl\<lparr>calls := map GetExtension compressed_extension_names\<rparr>\<rparr>)
   \<and> getCompressedTextureFormats (resource_4x4\<lparr>compressedTextureFormats := Some []\<rparr>)
        \<lparr>gl = plain_gl\<lparr>calls := map GetExtension compressed_extension_names\<rparr>\<rparr> =
     ([], resource_4x4\<lparr>compressedTextureFormats := Some []\<rparr>,
      \<lparr>gl = plain_gl\<lparr>calls := map GetExtension compressed_extension_names\<rparr>\<rparr>)"
proof -
  have first: "getCompressedTextureFormats resource_4x4 plain_renderer =
     ([], resource_4x4\<lparr>compressedTextureFormats := Some []\<rparr>,
      \<lparr>gl = plain_gl\<lparr>calls := map GetExtension compressed_extension_names\<rparr>\<rparr>)"
    by (simp add: run_defs plain_renderer_def plain_gl_def resource_4x4_def)
  from getCompressedTextureFormats_memoized[of resource_4x4 plain_renderer
      "\<lparr>gl = plain_gl\<lparr>calls := map GetExtension compressed_extension_names\<rparr>\<rparr>"]
  show ?thesis unfolding first by simp
qed

section \<open>Classification\<close>

text \<open>
  C1, as amended. Every \<open>upload\<close> makes exactly one transfer, and it is a compressed one
  if and only if the texture's format is neither \<open>RGBA\<close> nor \<open>RGB\<close> and appears in the
  sequence \<open>getCompressedTextureFormats\<close> returns for the resource. That sequence is
  memoised on the resource by its first query, whichever context the query was made
  on. When the cache is still unpopulated at the call, or holds what this context
  yields, the sequence is this context's; then, in particular, a context without any
  compressed-texture extension gives the empty sequence and an uncompressed transfer
  for every format.
\<close>

theorem upload_classification:
  "\<exists>t. filter is_transfer (upload_calls this renderer baseTexture glTexture) = [t]
     \<and> (is_compressed t \<longleftrightarrow>
          \<not> strict_eq (BaseTexture.format baseTexture) (RGBA (gl renderer))
          \<and> \<not> strict_eq (BaseTexture.format baseTexture) (RGB (gl renderer))
          \<and> appears_in (BaseTexture.format baseTexture)
               (fst (getCompressedTextureFormats this renderer)))
     \<and> (compressedTextureFormats this = None
          \<or> compressedTextureFormats this = Some (context_formats (gl renderer))
         \<longrightarrow> fst (getCompressedTextureFormats this renderer) = context_formats (gl renderer))
     \<and> ((compressedTextureFormats this = None
           \<or> compressedTextureFormats this = Some (context_formats (gl renderer)))
          \<and> \<not> list_ex (List.member (extensions (gl renderer))) compressed_extension_names
         \<longrightarrow> fst (getCompressedTextureFormats this renderer) = [] \<and> \<not> is_compressed t)"
proof -
  let ?f = "BaseTexture.format baseTexture"
  from compute_isCompressed_shape[of this renderer ?f]
  obtain this' cs where
    c: "compute_isCompressed this renderer ?f =
          (\<not> strict_eq ?f (RGBA (gl renderer)) \<and> \<not> strict_eq ?f (RGB (gl renderer))
             \<and> appears_in ?f (fst (getCompressedTextureFormats this renderer)),
           this', renderer\<lparr>gl := (gl renderer)\<lparr>calls := calls (gl renderer) @ cs\<rparr>\<rparr>)"
    and q: "list_all is_query cs"
    by blast
  let ?b = "\<not> strict_eq ?f (RGBA (gl renderer)) \<and> \<not> strict_eq ?f (RGB (gl renderer))
             \<and> appears_in ?f (fst (getCompressedTextureFormats this renderer))"
  obtain t where
    t: "filter is_transfer (upload_calls this renderer baseTexture glTexture) = [t]"
    and ct: "is_compressed t = ?b"
    by (cases ?b;
        cases "strict_eq (GLTexture.width glTexture) (BaseTexture.width baseTexture)
           \<and> strict_eq (GLTexture.height glTexture) (BaseTexture.height baseTexture)")
       (simp_all add: upload_calls_after_classification[OF c] query_not_transfer[OF q]
          is_transfer_def)
  have same: "fst (getCompressedTextureFormats this renderer) = context_formats (gl renderer)"
    if "compressedTextureFormats this = None
          \<or> compressedTextureFormats this = Some (context_formats (gl renderer))"
    using that getCompressedTextureFormats_fresh[of this renderer]
      getCompressedTextureFormats_cached[of this "context_formats (gl renderer)" renderer]
    by auto
  have none: "context_formats (gl renderer) = []"
    if "\<not> list_ex (List.member (extensions (gl renderer))) compressed_extension_names"
    using that by (simp add: context_formats_def)
  have "\<not> is_compressed t"
    if "compressedTextureFormats this = None
          \<or> compressedTextureFormats this = Some (context_formats (gl renderer))"
      and "\<not> list_ex (List.member (extensions (gl renderer))) compressed_extension_names"
    using ct same[OF that(1)] none[OF that(2)] by (simp add: appears_in_def)
  with t ct same none show ?thesis
    by (intro exI[of _ t]) metis
qed

theorem upload_classification_witness:
  "compressedTextureFormats resource_4x4 = None
   \<and> \<not> list_ex (List.member (extensions (gl plain_renderer))) compressed_extension_names
   \<and> fst (getCompressedTextureFormats resource_4x4 plain_renderer) = []
   \<and> filter is_transfer
        (upload_calls resource_4x4 plain_renderer (texture_4x4 (Num 33776)) (handle (Num 0) (Num 0)))
       = [TexImage2D (Num 3553) (Num 0) (Num 6408) (Num 4) (Num 4) (Num 0) (Num 33776) (Num 5126) pixels]
   \<and> \<not> is_compressed
        (TexImage2D (Num 3553) (Num 0) (Num 6408) (Num 4) (Num 4) (Num 0) (Num 33776) (Num 5126) pixels)"
proof -
  have fresh: "compressedTextureFormats resource_4x4 = None"
    by (simp add: run_defs example_defs)
  have plain: "\<not> list_ex (List.member (extensions (gl plain_renderer))) compressed_extension_names"
    by (simp add: example_defs compressed_extension_names_def)
  have t: "filter is_transfer
        (upload_calls resource_4x4 plain_renderer (texture_4x4 (Num 33776)) (handle (Num 0) (Num 0)))
       = [TexImage2D (Num 3553) (Num 0) (Num 6408) (Num 4) (Num 4) (Num 0) (Num 33776) (Num 5126) pixels]"
    by (simp add: run_defs example_defs is_transfer_def)
  from upload_classification[of resource_4x4 plain_renderer "texture_4x4 (Num 33776)"
      "handle (Num 0) (Num 0)"] fresh plain t
  show ?thesis by auto
qed

text \<open>
  C1 as stated fails: a resource whose formats were first queried on a context with
  S3TC keeps that list, and an \<open>upload\<close> on a context without any compressed-texture
  extension then gets a non-empty sequence and makes a compressed transfer.
\<close>

theorem upload_classification_counterexample:
  "BufferResource_new pixels size_4x4 = Inr resource_4x4
   \<and> queried_4x4 = fst (snd (getCompressedTextureFormats resource_4x4 s3tc_renderer))
   \<and> \<not> list_ex (List.member (extensions (gl plain_renderer))) compressed_extension_names
   \<and> fst (getCompressedTextureFormats queried_4x4 plain_renderer)
       = [Num 33776, Num 33777, Num 33778, Num 33779]
   \<and> filter is_transfer
        (upload_calls queried_4x4 plain_renderer (texture_4x4 (Num 33776)) (handle (Num 0) (Num 0)))
       = [CompressedTexImage2D (Num 3553) (Num 0) (Num 33776) (Num 4) (Num 4) (Num 0) pixels]"
proof -
  have new: "BufferResource_new pixels size_4x4 = Inr resource_4x4"
    by (simp add: BufferResource_new_def size_4x4_def resource_4x4_def Resource_new_def Let_def)
  have plain: "\<not> list_ex (List.member (extensions (gl plain_renderer))) compressed_extension_names"
    by (simp add: example_defs compressed_extension_names_def)
  have q: "queried_4x4 = resource_4x4\<lparr>compressedTextureFormats :=
             Some [Num 33776, Num 33777, Num 33778, Num 33779]\<rparr>"
    by (simp add: run_defs example_defs push_formats.simps)
  have fs: "fst (getCompressedTextureFormats queried_4x4 plain_renderer)
       = [Num 33776, Num 33777, Num 33778, Num 33779]"
    by (simp add: q getCompressedTextureFormats_def)
  have t: "filter is_transfer
        (upload_calls queried_4x4 plain_renderer (texture_4x4 (Num 33776)) (handle (Num 0) (Num 0)))
       = [CompressedTexImage2D (Num 3553) (Num 0) (Num 33776) (Num 4) (Num 4) (Num 0) pixels]"
    unfolding q by (simp add: run_defs example_defs is_transfer_def)
  from new plain fs t show ?thesis by (simp add: queried_4x4_def)
qed

text \<open>
  C10. When the texture's format is \<open>===\<close> to \<open>RGBA\<close> or to \<open>RGB\<close>, \<open>upload\<close> makes no
  \<open>getExtension\<close> and no \<open>getParameter\<close> call, and the resource, its format cache
  included, is after the call what it was before.
\<close>

theorem upload_standard_format_skips_cache:
  assumes "strict_eq (BaseTexture.format baseTexture) (RGBA (gl renderer))
           \<or> strict_eq (BaseTexture.format baseTexture) (RGB (gl renderer))"
  shows "filter is_query (upload_calls this renderer baseTexture glTexture) = []
    \<and> resource_of (upload this renderer baseTexture glTexture) = this
    \<and> compressedTextureFormats (resource_of (upload this renderer baseTexture glTexture))
        = compressedTextureFormats this"
proof -
  have c: "compute_isCompressed this renderer (BaseTexture.format baseTexture) =
          (False, this, renderer\<lparr>gl := (gl renderer)\<lparr>calls := calls (gl renderer) @ []\<rparr>\<rparr>)"
    using assms by (auto simp: compute_isCompressed_def)
  have "filter is_query (upload_calls this renderer baseTexture glTexture) = []"
    by (simp add: upload_calls_after_classification[OF c])
  moreover have "resource_of (upload this renderer baseTexture glTexture) = this"
    by (simp add: upload_after_classification[OF c] resource_of_def)
  ultimately show ?thesis by simp
qed

theorem upload_standard_format_skips_cache_witness:
  "(strict_eq (BaseTexture.format (texture_4x4 (Num 6408))) (RGBA (gl s3tc_renderer))
    \<or> strict_eq (BaseTexture.format (texture_4x4 (Num 6408))) (RGB (gl s3tc_renderer)))
   \<and> filter is_query
        (upload_calls resource_4x4 s3tc_renderer (texture_4x4 (Num 6408)) (handle (Num 0) (Num 0))) = []
   \<and> compressedTextureFormats
        (resource_of (upload resource_4x4 s3tc_renderer (texture_4x4 (Num 6408)) (handle (Num 0) (Num 0))))
       = None"
proof -
  have f: "strict_eq (BaseTexture.format (texture_4x4 (Num 6408))) (RGBA (gl s3tc_renderer))
    \<or> strict_eq (BaseTexture.format (texture_4x4 (Num 6408))) (RGB (gl s3tc_renderer))"
    by (simp add: example_defs strict_eq_def)
  have fresh: "compressedTextureFormats resource_4x4 = None"
    by (simp add: run_defs example_defs)
  from upload_standard_format_skips_cache[OF f, of resource_4x4 "handle (Num 0) (Num 0)"] f fresh
  show ?thesis by simp
qed

section \<open>The size decision\<close>

text \<open>
  C2. When the handle's recorded width and height are \<open>===\<close> to the texture's, \<open>upload\<close>
  leaves the handle as it was (its width and height in particular), makes exactly one
  sub-image transfer, compressed or standard, at offset (0, 0) over the texture's full
  width and height, and makes no full-image transfer.
\<close>

theorem upload_same_size:
  assumes "strict_eq (GLTexture.width glTexture) (BaseTexture.width baseTexture)"
    and "strict_eq (GLTexture.height glTexture) (BaseTexture.height baseTexture)"
  shows "glTexture_of (upload this renderer baseTexture glTexture) = glTexture
    \<and> GLTexture.width (glTexture_of (upload this renderer baseTexture glTexture))
        = GLTexture.width glTexture
    \<and> GLTexture.height (glTexture_of (upload this renderer baseTexture glTexture))
        = GLTexture.height glTexture
    \<and> (\<exists>t. filter is_sub_image (upload_calls this renderer baseTexture glTexture) = [t]
          \<and> (t = CompressedTexSubImage2D (target baseTexture) (Num 0) (Num 0) (Num 0)
                   (BaseTexture.width baseTexture) (BaseTexture.height baseTexture)
                   (BaseTexture.format baseTexture) (data this)
              \<or> t = TexSubImage2D (target baseTexture) (Num 0) (Num 0) (Num 0)
                   (BaseTexture.width baseTexture) (BaseTexture.height baseTexture)
                   (BaseTexture.format baseTexture) (BaseTexture.type baseTexture) (data this)))
    \<and> filter is_full_image (upload_calls this renderer baseTexture glTexture) = []"
proof -
  from compute_isCompressed_shape[of this renderer "BaseTexture.format baseTexture"]
  obtain b this' cs where
    c: "compute_isCompressed this renderer (BaseTexture.format baseTexture) =
          (b, this', renderer\<lparr>gl := (gl renderer)\<lparr>calls := calls (gl renderer) @ cs\<rparr>\<rparr>)"
    and q: "list_all is_query cs" and d: "data this' = data this"
    by blast
  have handle: "glTexture_of (upload this renderer baseTexture glTexture) = glTexture"
    using assms by (simp add: upload_after_classification[OF c] glTexture_of_def)
  have sub: "filter is_sub_image (upload_calls this renderer baseTexture glTexture) =
      [if b then CompressedTexSubImage2D (target baseTexture) (Num 0) (Num 0) (Num 0)
                   (BaseTexture.width baseTexture) (BaseTexture.height baseTexture)
                   (BaseTexture.format baseTexture) (data this)
       else TexSubImage2D (target baseTexture) (Num 0) (Num 0) (Num 0)
                   (BaseTexture.width baseTexture) (BaseTexture.height baseTexture)
                   (BaseTexture.format baseTexture) (BaseTexture.type baseTexture) (data this)]"
    using assms d by (simp add: upload_calls_after_classification[OF c] query_not_sub_image[OF q])
  have full: "filter is_full_image (upload_calls this renderer baseTexture glTexture) = []"
    using assms by (simp add: upload_calls_after_classification[OF c] query_not_full_image[OF q])
  from sub have "\<exists>t. filter is_sub_image (upload_calls this renderer baseTexture glTexture) = [t]
          \<and> (t = CompressedTexSubImage2D (target baseTexture) (Num 0) (Num 0) (Num 0)
                   (BaseTexture.width baseTexture) (BaseTexture.height baseTexture)
                   (BaseTexture.format baseTexture) (data this)
              \<or> t = TexSubImage2D (target baseTexture) (Num 0) (Num 0) (Num 0)
                   (BaseTexture.width baseTexture) (BaseTexture.height baseTexture)
                   (BaseTexture.format baseTexture) (BaseTexture.type baseTexture) (data this))"
    by (cases b) simp_all
  with handle full show ?thesis by simp
qed

theorem upload_same_size_witness:
  "strict_eq (GLTexture.width (handle (Num 4) (Num 4))) (BaseTexture.width (texture_4x4 (Num 6408)))
   \<and> strict_eq (GLTexture.height (handle (Num 4) (Num 4))) (BaseTexture.height (texture_4x4 (Num 6408)))
   \<and> glTexture_of (upload resource_4x4 plain_renderer (texture_4x4 (Num 6408)) (handle (Num 4) (Num 4)))
       = handle (Num 4) (Num 4)
   \<and> filter is_sub_image
        (upload_calls resource_4x4 plain_renderer (texture_4x4 (Num 6408)) (handle (Num 4) (Num 4)))
       = [TexSubImage2D (Num 3553) (Num 0) (Num 0) (Num 0) (Num 4) (Num 4) (Num 6408) (Num 5126) pixels]
   \<and> filter is_full_image
        (upload_calls resource_4x4 plain_renderer (texture_4x4 (Num 6408)) (handle (Num 4) (Num 4)))
       = []"
proof -
  have w: "strict_eq (GLTexture.width (handle (Num 4) (Num 4))) (BaseTexture.width (texture_4x4 (Num 6408)))"
    by (simp add: handle_def texture_4x4_def strict_eq_def)
  have h: "strict_eq (GLTexture.height (handle (Num 4) (Num 4))) (BaseTexture.height (texture_4x4 (Num 6408)))"
    by (simp add: handle_def texture_4x4_def strict_eq_def)
  have t: "filter is_sub_image
        (upload_calls resource_4x4 plain_renderer (texture_4x4 (Num 6408)) (handle (Num 4) (Num 4)))
       = [TexSubImage2D (Num 3553) (Num 0) (Num 0) (Num 0) (Num 4) (Num 4) (Num 6408) (Num 5126) pixels]"
    by (simp add: run_defs example_defs)
  from upload_same_size[OF w h, of resource_4x4 plain_renderer] have
    g: "glTexture_of (upload resource_4x4 plain_renderer (texture_4x4 (Num 6408)) (handle (Num 4) (Num 4)))
          = handle (Num 4) (Num 4)"
    and f: "filter is_full_image
        (upload_calls resource_4x4 plain_renderer (texture_4x4 (Num 6408)) (handle (Num 4) (Num 4)))
       = []"
    by blast+
  from w h g t f show ?thesis by blast
qed


text \<open>
  C3. When the handle's recorded width or height is not \<open>===\<close> to the texture's, \<open>upload\<close>
  makes exactly one full-image transfer, compressed or standard, and no sub-image
  transfer; afterwards the handle records the texture's width and height, and the
  call returns true.
\<close>

theorem upload_resize:
  assumes "\<not> (strict_eq (GLTexture.width glTexture) (BaseTexture.width baseTexture)
              \<and> strict_eq (GLTexture.height glTexture) (BaseTexture.height baseTexture))"
  shows "result_of (upload this renderer baseTexture glTexture) = True
    \<and> GLTexture.width (glTexture_of (upload this renderer baseTexture glTexture))
        = BaseTexture.width baseTexture
    \<and> GLTexture.height (glTexture_of (upload this renderer baseTexture glTexture))
        = BaseTexture.height baseTexture
    \<and> (\<exists>t. filter is_full_image (upload_calls this renderer baseTexture glTexture) = [t]
          \<and> (t = CompressedTexImage2D (target baseTexture) (Num 0)
                   (BaseTexture.format baseTexture)
                   (BaseTexture.width baseTexture) (BaseTexture.height baseTexture)
                   (Num 0) (data this)
              \<or> t = TexImage2D (target baseTexture) (Num 0) (internalFormat glTexture)
                   (BaseTexture.width baseTexture) (BaseTexture.height baseTexture)
                   (Num 0) (BaseTexture.format baseTexture) (GLTexture.type glTexture)
                   (data this)))
    \<and> filter is_sub_image (upload_calls this renderer baseTexture glTexture) = []"
proof -
  from compute_isCompressed_shape[of this renderer "BaseTexture.format baseTexture"]
  obtain b this' cs where
    c: "compute_isCompressed this renderer (BaseTexture.format baseTexture) =
          (b, this', renderer\<lparr>gl := (gl renderer)\<lparr>calls := calls (gl renderer) @ cs\<rparr>\<rparr>)"
    and q: "list_all is_query cs" and d: "data this' = data this"
    by blast
  have ok: "result_of (upload this renderer baseTexture glTexture) = True"
    by (simp add: upload_after_classification[OF c] result_of_def)
  have handle: "glTexture_of (upload this renderer baseTexture glTexture) =
      glTexture\<lparr>GLTexture.width := BaseTexture.width baseTexture,
                GLTexture.height := BaseTexture.height baseTexture\<rparr>"
    using assms by (auto simp: upload_after_classification[OF c] glTexture_of_def)
  have full: "filter is_full_image (upload_calls this renderer baseTexture glTexture) =
      [if b then CompressedTexImage2D (target baseTexture) (Num 0)
                   (BaseTexture.format baseTexture)
                   (BaseTexture.width baseTexture) (BaseTexture.height baseTexture)
                   (Num 0) (data this)
       else TexImage2D (target baseTexture) (Num 0) (internalFormat glTexture)
                   (BaseTexture.width baseTexture) (BaseTexture.height baseTexture)
                   (Num 0) (BaseTexture.format baseTexture) (GLTexture.type glTexture)
                   (data this)]"
    using assms d by (auto simp: upload_calls_after_classification[OF c] query_not_full_image[OF q])
  have sub: "filter is_sub_image (upload_calls this renderer baseTexture glTexture) = []"
    using assms by (auto simp: upload_calls_after_classification[OF c] query_not_sub_image[OF q])
  from full have "\<exists>t. filter is_full_image (upload_calls this renderer baseTexture glTexture) = [t]
          \<and> (t = CompressedTexImage2D (target baseTexture) (Num 0)
                   (BaseTexture.format baseTexture)
                   (BaseTexture.width baseTexture) (BaseTexture.height baseTexture)
                   (Num 0) (data this)
              \<or> t = TexImage2D (target baseTexture) (Num 0) (internalFormat glTexture)
                   (BaseTexture.width baseTexture) (BaseTexture.height baseTexture)
                   (Num 0) (BaseTexture.format baseTexture) (GLTexture.type glTexture)
                   (data this))"
    by (cases b) simp_all
  with ok handle sub show ?thesis by simp
qed

theorem upload_resize_witness:
  "\<not> (strict_eq (GLTexture.width (handle (Num 0) (Num 0))) (BaseTexture.width (texture_4x4 (Num 33776)))
       \<and> strict_eq (GLTexture.height (handle (Num 0) (Num 0))) (BaseTexture.height (texture_4x4 (Num 33776))))
   \<and> result_of (upload resource_4x4 s3tc_renderer (texture_4x4 (Num 33776)) (handle (Num 0) (Num 0)))
   \<and> glTexture_of (upload resource_4x4 s3tc_renderer (texture_4x4 (Num 33776)) (handle (Num 0) (Num 0)))
       = handle (Num 4) (Num 4)
   \<and> filter is_full_image
        (upload_calls resource_4x4 s3tc_renderer (texture_4x4 (Num 33776)) (handle (Num 0) (Num 0)))
       = [CompressedTexImage2D (Num 3553) (Num 0) (Num 33776) (Num 4) (Num 4) (Num 0) pixels]
   \<and> filter is_sub_image
        (upload_calls resource_4x4 s3tc_renderer (texture_4x4 (Num 33776)) (handle (Num 0) (Num 0)))
       = []"
proof -
  have m: "\<not> (strict_eq (GLTexture.width (handle (Num 0) (Num 0))) (BaseTexture.width (texture_4x4 (Num 33776)))
       \<and> strict_eq (GLTexture.height (handle (Num 0) (Num 0))) (BaseTexture.height (texture_4x4 (Num 33776))))"
    by (simp add: handle_def texture_4x4_def strict_eq_def)
  have t: "filter is_full_image
        (upload_calls resource_4x4 s3tc_renderer (texture_4x4 (Num 33776)) (handle (Num 0) (Num 0)))
       = [CompressedTexImage2D (Num 3553) (Num 0) (Num 33776) (Num 4) (Num 4) (Num 0) pixels]"
    by (simp add: run_defs example_defs push_formats.simps)
  have g: "glTexture_of (upload resource_4x4 s3tc_renderer (texture_4x4 (Num 33776)) (handle (Num 0) (Num 0)))
       = handle (Num 4) (Num 4)"
    by (simp add: run_defs example_defs push_formats.simps)
  from upload_resize[OF m, of resource_4x4 s3tc_renderer] have
    r: "result_of (upload resource_4x4 s3tc_renderer (texture_4x4 (Num 33776)) (handle (Num 0) (Num 0)))"
    and f: "filter is_sub_image
        (upload_calls resource_4x4 s3tc_renderer (texture_4x4 (Num 33776)) (handle (Num 0) (Num 0)))
       = []"
    by blast+
  from m r g t f show ?thesis by blast
qed

text \<open>
  C7. On the uncompressed path with the recorded size differing from the texture's,
  the one transfer is \<open>texImage2D\<close> with the texture's target, level 0, the handle's
  \<open>internalFormat\<close>, the texture's width and height, border 0, the texture's \<open>format\<close>,
  the handle's \<open>type\<close>, and the resource's data.
\<close>

theorem upload_uncompressed_full_image:
  assumes "\<not> (strict_eq (GLTexture.width glTexture) (BaseTexture.width baseTexture)
              \<and> strict_eq (GLTexture.height glTexture) (BaseTexture.height baseTexture))"
    and "\<not> fst (compute_isCompressed this renderer (BaseTexture.format baseTexture))"
  shows "filter is_transfer (upload_calls this renderer baseTexture glTexture) =
      [TexImage2D (target baseTexture) (Num 0) (internalFormat glTexture)
         (BaseTexture.width baseTexture) (BaseTexture.height baseTexture)
         (Num 0) (BaseTexture.format baseTexture) (GLTexture.type glTexture) (data this)]"
proof -
  from compute_isCompressed_shape[of this renderer "BaseTexture.format baseTexture"]
  obtain b this' cs where
    c: "compute_isCompressed this renderer (BaseTexture.format baseTexture) =
          (b, this', renderer\<lparr>gl := (gl renderer)\<lparr>calls := calls (gl renderer) @ cs\<rparr>\<rparr>)"
    and q: "list_all is_query cs" and d: "data this' = data this"
    by blast
  from assms(2) c have "\<not> b" by simp
  with assms(1) d show ?thesis
    by (auto simp: upload_calls_after_classification[OF c] query_not_transfer[OF q]
          is_transfer_def)
qed

theorem upload_uncompressed_full_image_witness:
  "\<not> (strict_eq (GLTexture.width (handle (Num 0) (Num 0))) (BaseTexture.width (texture_4x4 (Num 6408)))
       \<and> strict_eq (GLTexture.height (handle (Num 0) (Num 0))) (BaseTexture.height (texture_4x4 (Num 6408))))
   \<and> \<not> fst (compute_isCompressed resource_4x4 plain_renderer (BaseTexture.format (texture_4x4 (Num 6408))))
   \<and> filter is_transfer
        (upload_calls resource_4x4 plain_renderer (texture_4x4 (Num 6408)) (handle (Num 0) (Num 0)))
       = [TexImage2D (Num 3553) (Num 0) (Num 6408) (Num 4) (Num 4) (Num 0) (Num 6408) (Num 5126) pixels]"
proof -
  have m: "\<not> (strict_eq (GLTexture.width (handle (Num 0) (Num 0))) (BaseTexture.width (texture_4x4 (Num 6408)))
       \<and> strict_eq (GLTexture.height (handle (Num 0) (Num 0))) (BaseTexture.height (texture_4x4 (Num 6408))))"
    by (simp add: handle_def texture_4x4_def strict_eq_def)
  have u: "\<not> fst (compute_isCompressed resource_4x4 plain_renderer (BaseTexture.format (texture_4x4 (Num 6408))))"
    by (simp add: run_defs example_defs)
  have d: "data resource_4x4 = pixels"
    by (simp add: run_defs example_defs)
  from upload_uncompressed_full_image[OF m u] m u d
  show ?thesis by (simp add: texture_4x4_def handle_def)
qed

section \<open>Disposal and type detection\<close>

text \<open>
  C9. After \<open>dispose()\<close> the data reference is null; a second \<open>dispose()\<close> also
  completes (the operation has no failing branch) and leaves the resource exactly as
  the first one did, with data null.
\<close>

theorem dispose_idempotent:
  "data (dispose this) = Null
   \<and> data (dispose (dispose this)) = Null
   \<and> dispose (dispose this) = dispose this"
  by (simp add: dispose_def)

text \<open>\<open>instanceof\<close> looks for one object on the prototype chain.\<close>

lemma has_prototype_member: "has_prototype chain p = (p \<in> set chain)"
  by (induction chain) auto

lemma instanceof_prototypes: "instanceof v p = (p \<in> set (prototypes v))"
  by (cases v) (simp_all add: has_prototype_member)

lemma dropWhile_user_member:
  "\<not> is_user_prototype p \<Longrightarrow>
   (p \<in> set (dropWhile is_user_prototype chain)) = (p \<in> set chain)"
  by (induction chain) auto

lemma native_typed_array_prototype:
  "native_to r v \<Longrightarrow>
   (TypedArrayPrototype r' k \<in> set (prototypes v)) = (r' = r \<and> buffer_kind v = Some k)"
proof (cases v)
  case (Array chain xs fs)
  assume "native_to r v"
  with Array have "dropWhile is_user_prototype chain = array_chain r" by simp
  with dropWhile_user_member[of "TypedArrayPrototype r' k" chain]
  show ?thesis by (simp add: Array array_chain_def)
next
  case (TypedArray chain k' xs fs)
  assume "native_to r v"
  with TypedArray have "dropWhile is_user_prototype chain = typed_array_chain r k'" by simp
  with dropWhile_user_member[of "TypedArrayPrototype r' k" chain]
  show ?thesis by (auto simp: TypedArray typed_array_chain_def)
next
  case (Object chain fs)
  assume "native_to r v"
  with Object have "dropWhile is_user_prototype chain = object_chain r" by simp
  with dropWhile_user_member[of "TypedArrayPrototype r' k" chain]
  show ?thesis by (simp add: Object object_chain_def)
qed simp_all

text \<open>
  C8, as amended. \<open>test\<close> is true exactly for the objects whose prototype chain holds
  \<open>Float32Array.prototype\<close>, \<open>Uint8Array.prototype\<close> or \<open>Uint32Array.prototype\<close> of the realm
  the code runs in. So, on the values native to that realm, it is true for every
  32-bit float, 8-bit unsigned and 32-bit unsigned buffer and false for everything
  else; on the values native to another realm it is false; and it is false for null,
  for a plain array and for an 8-bit clamped buffer of any realm.
\<close>

theorem test_classifies:
  "(test source \<longleftrightarrow>
      TypedArrayPrototype ThisRealm Float32 \<in> set (prototypes source)
      \<or> TypedArrayPrototype ThisRealm Uint8 \<in> set (prototypes source)
      \<or> TypedArrayPrototype ThisRealm Uint32 \<in> set (prototypes source))
   \<and> (native_to ThisRealm source \<longrightarrow>
        (test source \<longleftrightarrow>
           buffer_kind source = Some Float32 \<or> buffer_kind source = Some Uint8
           \<or> buffer_kind source = Some Uint32))
   \<and> (native_to (OtherRealm n) source \<longrightarrow> \<not> test source)
   \<and> \<not> test Null
   \<and> \<not> test (Array (array_chain r) ys fs)
   \<and> \<not> test (TypedArray (typed_array_chain r Uint8Clamped) Uint8Clamped zs gs)"
proof -
  have chain: "test v \<longleftrightarrow>
      TypedArrayPrototype ThisRealm Float32 \<in> set (prototypes v)
      \<or> TypedArrayPrototype ThisRealm Uint8 \<in> set (prototypes v)
      \<or> TypedArrayPrototype ThisRealm Uint32 \<in> set (prototypes v)" for v
    by (simp add: test_def instanceof_prototypes)
  have here: "test source \<longleftrightarrow>
           buffer_kind source = Some Float32 \<or> buffer_kind source = Some Uint8
           \<or> buffer_kind source = Some Uint32"
    if "native_to ThisRealm source"
    by (simp add: chain native_typed_array_prototype[OF that])
  have there: "\<not> test source" if "native_to (OtherRealm n) source"
    by (simp add: chain native_typed_array_prototype[OF that])
  have null: "\<not> test Null"
    by (simp add: chain)
  have plain: "\<not> test (Array (array_chain r) ys fs)"
    by (simp add: chain array_chain_def)
  have clamped: "\<not> test (TypedArray (typed_array_chain r Uint8Clamped) Uint8Clamped zs gs)"
    by (simp add: chain typed_array_chain_def)
  from chain[of source] here there null plain clamped show ?thesis by blast
qed

theorem test_classifies_witness:
  "native_to ThisRealm pixels \<and> buffer_kind pixels = Some Float32 \<and> test pixels
   \<and> native_to (OtherRealm 1) foreign_floats \<and> \<not> test foreign_floats"
proof -
  have p: "native_to ThisRealm pixels" "buffer_kind pixels = Some Float32"
    by (simp_all add: pixels_def typed_array_chain_def)
  have f: "native_to (OtherRealm 1) foreign_floats"
    by (simp add: foreign_floats_def typed_array_chain_def)
  from test_classifies[of pixels] p have "test pixels" by blast
  moreover from test_classifies[of foreign_floats 1] f have "\<not> test foreign_floats" by blast
  ultimately show ?thesis using p f by blast
qed

text \<open>
  C8 as stated fails in both directions: a \<open>Float32Array\<close> of another realm is a 32-bit
  float buffer and \<open>test\<close> is false for it, and an ordinary object created with
  \<open>Uint8Array.prototype\<close> as its prototype is no buffer and \<open>test\<close> is true for it.
\<close>

theorem test_classifies_counterexample:
  "buffer_kind foreign_floats = Some Float32 \<and> \<not> test foreign_floats
   \<and> buffer_kind bare_instance = None \<and> test bare_instance"
  by (simp add: foreign_floats_def bare_instance_def typed_array_chain_def test_def)

end
